theory Spec2Isabelle
  imports Complex_Main
begin

section \<open>Python exceptions and dictionaries\<close>

text \<open>
  The exceptions that the modelled functions can raise. A function that can raise returns
  a value of type \<open>py_error + 'a\<close>, with \<open>Inl\<close> for the exception.
\<close>

datatype py_error = KeyError | TypeError | AttributeError | ValueError | JSONDecodeError

text \<open>
  A Python \<open>dict\<close> keeps its keys in insertion order, so it is an association list with
  distinct keys. Assigning to a key that is present replaces the value in place; assigning
  to a new key appends it.
\<close>

fun dict_set :: "('k \<times> 'v) list \<Rightarrow> 'k \<Rightarrow> 'v \<Rightarrow> ('k \<times> 'v) list" where
  "dict_set [] k v = [(k, v)]"
| "dict_set ((k', v') # d) k v =
     (if k' = k then (k', v) # d else (k', v') # dict_set d k v)"

definition dict_get :: "('k \<times> 'v) list \<Rightarrow> 'k \<Rightarrow> 'v option" where
  "dict_get d k = map_of d k"

definition dict_has :: "('k \<times> 'v) list \<Rightarrow> 'k \<Rightarrow> bool" where
  "dict_has d k = (k \<in> set (map fst d))"

text \<open>\<open>dict(pairs)\<close>: a later pair with the same key overwrites the value of the earlier one.\<close>

definition dict_of_pairs :: "('k \<times> 'v) list \<Rightarrow> ('k \<times> 'v) list" where
  "dict_of_pairs ps = foldl (\<lambda>d (k, v). dict_set d k v) [] ps"

section \<open>Decimal integers: \<open>str(int)\<close> and \<open>int(str)\<close>\<close>

text \<open>
  \<open>show_int\<close> is the decimal text of an integer. Converting between \<open>int\<close> and \<open>str\<close>
  raises \<open>ValueError\<close> beyond \<open>sys.get_int_max_str_digits()\<close> digits, 4300 unless the
  process changes it.
\<close>

definition int_max_str_digits :: nat where
  "int_max_str_digits = 4300"

definition digit_char :: "nat \<Rightarrow> char" where
  "digit_char n = ''0123456789'' ! (n mod 10)"

fun show_nat :: "nat \<Rightarrow> string" where
  "show_nat n = (if n < 10 then [digit_char n] else show_nat (n div 10) @ [digit_char n])"

definition show_int :: "int \<Rightarrow> string" where
  "show_int i = (if i < 0 then CHR ''-'' # show_nat (nat (- i)) else show_nat (nat i))"

definition decimal_digits :: "int \<Rightarrow> nat" where
  "decimal_digits i = length (show_nat (nat \<bar>i\<bar>))"

text \<open>\<open>str(i)\<close>, which is also the text that \<open>json.dumps\<close> writes for an integer.\<close>

definition int_str :: "int \<Rightarrow> py_error + string" where
  "int_str i =
     (if decimal_digits i > int_max_str_digits then Inl ValueError else Inr (show_int i))"

text \<open>
  \<open>int(s)\<close> for a string, base 10: surrounding whitespace (space, tab, line feed,
  vertical tab, form feed, carriage return) is stripped, one sign is allowed, and single
  underscores may separate digits; more digits than the limit, or anything else, raises
  \<open>ValueError\<close>. Strings are byte strings. A text that is accepted here is ASCII, and
  Python gives it the same number; a text with other characters is refused here.
\<close>

definition is_space :: "char \<Rightarrow> bool" where
  "is_space c = (c \<in> set [CHR '' '', CHR 0x09, CHR 0x0A, CHR 0x0B, CHR 0x0C, CHR 0x0D])"

definition strip :: "string \<Rightarrow> string" where
  "strip s = rev (dropWhile is_space (rev (dropWhile is_space s)))"

definition digit_val :: "char \<Rightarrow> nat option" where
  "digit_val c =
     (let n = (of_char c :: nat) in if 48 \<le> n \<and> n \<le> 57 then Some (n - 48) else None)"

text \<open>
  \<open>parse_digits acc after_digit s\<close>: \<open>after_digit\<close> tells whether the previous character
  was a digit, which is where an underscore or the end of the text is allowed.
\<close>

fun parse_digits :: "nat \<Rightarrow> bool \<Rightarrow> string \<Rightarrow> nat option" where
  "parse_digits acc after_digit [] = (if after_digit then Some acc else None)"
| "parse_digits acc after_digit (c # cs) =
     (if c = CHR ''_'' then (if after_digit then parse_digits acc False cs else None)
      else (case digit_val c of
              None \<Rightarrow> None
            | Some d \<Rightarrow> parse_digits (10 * acc + d) True cs))"

definition int_of_string :: "string \<Rightarrow> py_error + int" where
  "int_of_string s =
     (let t = strip s;
          (neg, ds) = (case t of
                         [] \<Rightarrow> (False, [])
                       | c # cs \<Rightarrow> if c = CHR ''-'' then (True, cs)
                                  else if c = CHR ''+'' then (False, cs)
                                  else (False, t))
      in case parse_digits 0 False ds of
           None \<Rightarrow> Inl ValueError
         | Some n \<Rightarrow>
             if length (filter (\<lambda>c. c \<noteq> CHR ''_'') ds) > int_max_str_digits
             then Inl ValueError
             else Inr (if neg then - int n else int n))"

section \<open>The message history store\<close>

subsection \<open>Stored values, the JSON document and the files\<close>

text \<open>
  A key of a forwarder's dictionary is an \<open>int\<close> when \<open>save_mapping_data\<close> stored it and a
  \<open>str\<close> when \<open>json.loads\<close> read it; Python never takes \<open>100\<close> and \<open>"100"\<close> for the same key.
\<close>

datatype msg_key = IntKey int | StrKey string

text \<open>
  A stored value: a Discord message id, or what \<open>save_missed_message\<close> stores, the tuple
  \<open>(discord_channel_id, exception)\<close>, where \<open>exception\<close> is any object. \<open>HObject\<close> is an
  object that \<open>json.dumps\<close> cannot serialise (an exception instance), named by its text.
\<close>

datatype hval = HInt int | HStr string | HTuple "hval list" | HList "hval list"
  | HObject string

type_synonym forwarder_data = "(msg_key \<times> hval) list"
type_synonym mapping_data = "(string \<times> forwarder_data) list"

text \<open>
  The text of a history file is kept as the JSON document it denotes: an object of objects
  whose keys are strings. \<open>Empty_text\<close> is the file of zero bytes that
  \<open>open(name, "w").close()\<close> leaves, which is not a JSON document.
\<close>

datatype jval = JInt int | JStr string | JArr "jval list"

type_synonym json_doc = "(string \<times> (string \<times> jval) list) list"

datatype file_text = Empty_text | Text json_doc

text \<open>
  \<open>json.dumps\<close>: keys become strings, tuples and lists become arrays; an object that
  cannot be serialised raises \<open>TypeError\<close>, an integer beyond the digit limit \<open>ValueError\<close>.
  The key of an item is converted before its value.
\<close>

fun dumps_val :: "hval \<Rightarrow> py_error + jval"
  and dumps_vals :: "hval list \<Rightarrow> py_error + jval list" where
  "dumps_val (HInt i) = (case int_str i of Inl e \<Rightarrow> Inl e | Inr t \<Rightarrow> Inr (JInt i))"
| "dumps_val (HStr s) = Inr (JStr s)"
| "dumps_val (HTuple vs) = (case dumps_vals vs of Inl e \<Rightarrow> Inl e | Inr js \<Rightarrow> Inr (JArr js))"
| "dumps_val (HList vs) = (case dumps_vals vs of Inl e \<Rightarrow> Inl e | Inr js \<Rightarrow> Inr (JArr js))"
| "dumps_val (HObject n) = Inl TypeError"
| "dumps_vals [] = Inr []"
| "dumps_vals (v # vs) =
     (case dumps_val v of
        Inl e \<Rightarrow> Inl e
      | Inr j \<Rightarrow> (case dumps_vals vs of Inl e \<Rightarrow> Inl e | Inr js \<Rightarrow> Inr (j # js)))"

definition dumps_key :: "msg_key \<Rightarrow> py_error + string" where
  "dumps_key k = (case k of IntKey i \<Rightarrow> int_str i | StrKey s \<Rightarrow> Inr s)"

fun dumps_forwarder :: "forwarder_data \<Rightarrow> py_error + (string \<times> jval) list" where
  "dumps_forwarder [] = Inr []"
| "dumps_forwarder ((k, v) # d) =
     (case dumps_key k of
        Inl e \<Rightarrow> Inl e
      | Inr t \<Rightarrow>
          (case dumps_val v of
             Inl e \<Rightarrow> Inl e
           | Inr j \<Rightarrow> (case dumps_forwarder d of
                        Inl e \<Rightarrow> Inl e
                      | Inr js \<Rightarrow> Inr ((t, j) # js))))"

fun json_dumps :: "mapping_data \<Rightarrow> py_error + json_doc" where
  "json_dumps [] = Inr []"
| "json_dumps ((name, d) # m) =
     (case dumps_forwarder d of
        Inl e \<Rightarrow> Inl e
      | Inr jd \<Rightarrow> (case json_dumps m of
                    Inl e \<Rightarrow> Inl e
                  | Inr jm \<Rightarrow> Inr ((name, jd) # jm)))"

text \<open>
  \<open>json.loads\<close>: every key is a \<open>str\<close>, every array a list; the empty text is an error,
  and so is an integer with more digits than the limit.
\<close>

fun loads_val :: "jval \<Rightarrow> py_error + hval"
  and loads_vals :: "jval list \<Rightarrow> py_error + hval list" where
  "loads_val (JInt i) =
     (if decimal_digits i > int_max_str_digits then Inl ValueError else Inr (HInt i))"
| "loads_val (JStr s) = Inr (HStr s)"
| "loads_val (JArr js) = (case loads_vals js of Inl e \<Rightarrow> Inl e | Inr vs \<Rightarrow> Inr (HList vs))"
| "loads_vals [] = Inr []"
| "loads_vals (j # js) =
     (case loads_val j of
        Inl e \<Rightarrow> Inl e
      | Inr v \<Rightarrow> (case loads_vals js of Inl e \<Rightarrow> Inl e | Inr vs \<Rightarrow> Inr (v # vs)))"

fun loads_pairs :: "(string \<times> jval) list \<Rightarrow> py_error + (msg_key \<times> hval) list" where
  "loads_pairs [] = Inr []"
| "loads_pairs ((k, j) # jd) =
     (case loads_val j of
        Inl e \<Rightarrow> Inl e
      | Inr v \<Rightarrow> (case loads_pairs jd of
                   Inl e \<Rightarrow> Inl e
                 | Inr ps \<Rightarrow> Inr ((StrKey k, v) # ps)))"

definition loads_forwarder :: "(string \<times> jval) list \<Rightarrow> py_error + forwarder_data" where
  "loads_forwarder jd =
     (case loads_pairs jd of Inl e \<Rightarrow> Inl e | Inr ps \<Rightarrow> Inr (dict_of_pairs ps))"

fun loads_forwarders :: "json_doc \<Rightarrow> py_error + (string \<times> forwarder_data) list" where
  "loads_forwarders [] = Inr []"
| "loads_forwarders ((name, jd) # doc) =
     (case loads_forwarder jd of
        Inl e \<Rightarrow> Inl e
      | Inr fd \<Rightarrow> (case loads_forwarders doc of
                    Inl e \<Rightarrow> Inl e
                  | Inr ps \<Rightarrow> Inr ((name, fd) # ps)))"

definition json_loads :: "file_text \<Rightarrow> py_error + mapping_data" where
  "json_loads t =
     (case t of
        Empty_text \<Rightarrow> Inl JSONDecodeError
      | Text doc \<Rightarrow>
          (case loads_forwarders doc of
             Inl e \<Rightarrow> Inl e
           | Inr ps \<Rightarrow> Inr (dict_of_pairs ps)))"

subsection \<open>The store: the cache, the two files and the error log\<close>

text \<open>
  \<open>load_mapping_data\<close> returns the cached dictionary object itself, and the callers
  mutate what it returns. So the dictionaries live in a heap, addressed by their index,
  and \<open>_mapping_data_cache\<close> holds \<open>None\<close> or the address of one of them (always an
  address below the length of the heap, since only \<open>load_mapping_data\<close> sets it). A file
  is \<open>None\<close> when it does not exist. \<open>error_log\<close> collects the calls of \<open>logger.error\<close>.
\<close>

datatype log_entry = Save_mapping_failed | Save_missed_failed | Rotate_failed

record store =
  heap :: "mapping_data list"
  cache :: "nat option"
  history_file :: "file_text option"
  missed_file :: "file_text option"
  error_log :: "log_entry list"

definition fresh_store :: store where
  "fresh_store =
     \<lparr>heap = [], cache = None, history_file = None, missed_file = None, error_log = []\<rparr>"

text \<open>A new process: the memory is gone, \<open>__new__\<close> sets the cache to \<open>None\<close>; the files stay.\<close>

definition restart :: "store \<Rightarrow> store" where
  "restart s = s\<lparr>heap := [], cache := None\<rparr>"

definition alloc :: "mapping_data \<Rightarrow> store \<Rightarrow> nat \<times> store" where
  "alloc m s = (length (heap s), s\<lparr>heap := heap s @ [m]\<rparr>)"

definition load_mapping_data :: "store \<Rightarrow> (py_error + nat) \<times> store" where
  "load_mapping_data s =
     (case cache s of
        Some a \<Rightarrow> (Inr a, s)
      | None \<Rightarrow>
          (case history_file s of
             None \<Rightarrow> (let (a, s') = alloc [] s in (Inr a, s'\<lparr>cache := Some a\<rparr>))
           | Some t \<Rightarrow>
               (case json_loads t of
                  Inl e \<Rightarrow> (Inl e, s)
                | Inr data \<Rightarrow> (let (a, s') = alloc data s in (Inr a, s'\<lparr>cache := Some a\<rparr>)))))"

text \<open>
  The two statements \<open>if forwarder_name not in mapping_data: mapping_data[forwarder_name] = {}\<close>
  and \<open>mapping_data[forwarder_name][tg_message_id] = value\<close>.
\<close>

definition upsert :: "mapping_data \<Rightarrow> string \<Rightarrow> msg_key \<Rightarrow> hval \<Rightarrow> mapping_data" where
  "upsert m name k v =
     (let m1 = (if dict_has m name then m else dict_set m name [])
      in case dict_get m1 name of
           None \<Rightarrow> m1
         | Some d \<Rightarrow> dict_set m1 name (dict_set d k v))"

text \<open>
  What the environment does to one \<open>open(name, "w")\<close> followed by \<open>write\<close>: both succeed,
  the open fails (the file is not touched), or the write fails after the open has
  truncated the file. \<open>write_file\<close> gives whether the \<open>with\<close> block ended without an
  exception, and the file it leaves; \<open>json.dumps\<close> runs after the open and before the write.
\<close>

datatype io_outcome = Io_ok | Open_fails | Write_fails

definition write_file :: "io_outcome \<Rightarrow> mapping_data \<Rightarrow> file_text option \<Rightarrow> bool \<times> file_text option" where
  "write_file io m f =
     (if io = Open_fails then (False, f)
      else (case json_dumps m of
              Inl e \<Rightarrow> (False, Some Empty_text)
            | Inr doc \<Rightarrow> if io = Write_fails then (False, Some Empty_text)
                        else (True, Some (Text doc))))"

definition save_mapping_data ::
    "io_outcome \<Rightarrow> store \<Rightarrow> string \<Rightarrow> int \<Rightarrow> int \<Rightarrow> (py_error + unit) \<times> store" where
  "save_mapping_data io s name tg_message_id discord_message_id =
     (case load_mapping_data s of
        (Inl e, s1) \<Rightarrow> (Inl e, s1)
      | (Inr mapping_data, s1) \<Rightarrow>
          (let s2 = s1\<lparr>heap := (heap s1)[mapping_data :=
                      upsert (heap s1 ! mapping_data) name
                        (IntKey tg_message_id) (HInt discord_message_id)]\<rparr>;
               (ok, f) = write_file io (heap s2 ! mapping_data) (history_file s2)
           in if ok then (Inr (), s2\<lparr>history_file := f, cache := Some mapping_data\<rparr>)
              else (Inr (), s2\<lparr>history_file := f,
                                error_log := error_log s2 @ [Save_mapping_failed]\<rparr>)))"

definition save_missed_message ::
    "io_outcome \<Rightarrow> store \<Rightarrow> string \<Rightarrow> int \<Rightarrow> int \<Rightarrow> hval \<Rightarrow> (py_error + unit) \<times> store" where
  "save_missed_message io s name tg_message_id discord_channel_id exception =
     (case load_mapping_data s of
        (Inl e, s1) \<Rightarrow> (Inl e, s1)
      | (Inr mapping_data, s1) \<Rightarrow>
          (let s2 = s1\<lparr>heap := (heap s1)[mapping_data :=
                      upsert (heap s1 ! mapping_data) name
                        (IntKey tg_message_id) (HTuple [HInt discord_channel_id, exception])]\<rparr>;
               (ok, f) = write_file io (heap s2 ! mapping_data) (missed_file s2)
           in if ok then (Inr (), s2\<lparr>missed_file := f\<rparr>)
              else (Inr (), s2\<lparr>missed_file := f,
                                error_log := error_log s2 @ [Save_missed_failed]\<rparr>)))"

definition get_discord_message_id ::
    "store \<Rightarrow> string \<Rightarrow> int \<Rightarrow> (py_error + hval option) \<times> store" where
  "get_discord_message_id s name tg_message_id =
     (case load_mapping_data s of
        (Inl e, s1) \<Rightarrow> (Inl e, s1)
      | (Inr mapping_data, s1) \<Rightarrow>
          (case dict_get (heap s1 ! mapping_data) name of
             Some forwarder_data \<Rightarrow> (Inr (dict_get forwarder_data (IntKey tg_message_id)), s1)
           | None \<Rightarrow> (Inr None, s1)))"

subsection \<open>The last message of every forwarder\<close>

record last_message =
  forwarder_name :: string
  telegram_id :: int
  discord_id :: hval

definition key_int :: "msg_key \<Rightarrow> py_error + int" where
  "key_int k = (case k of IntKey i \<Rightarrow> Inr i | StrKey s \<Rightarrow> int_of_string s)"

text \<open>
  \<open>max(forwarder_data, key=int)\<close>: \<open>int\<close> is applied to every key in order, and a later key
  replaces the best one only when its number is strictly greater.
\<close>

fun max_from :: "msg_key \<Rightarrow> int \<Rightarrow> msg_key list \<Rightarrow> py_error + msg_key" where
  "max_from best best_val [] = Inr best"
| "max_from best best_val (k # ks) =
     (case key_int k of
        Inl e \<Rightarrow> Inl e
      | Inr v \<Rightarrow> if v > best_val then max_from k v ks else max_from best best_val ks)"

definition max_key_int :: "msg_key list \<Rightarrow> py_error + msg_key" where
  "max_key_int ks =
     (case ks of
        [] \<Rightarrow> Inl ValueError
      | k # ks' \<Rightarrow> (case key_int k of Inl e \<Rightarrow> Inl e | Inr v \<Rightarrow> max_from k v ks'))"

fun last_messages_loop :: "mapping_data \<Rightarrow> last_message list \<Rightarrow> py_error + last_message list" where
  "last_messages_loop [] last_messages = Inr last_messages"
| "last_messages_loop ((name, forwarder_data) # m) last_messages =
     (if forwarder_data = [] then last_messages_loop m last_messages
      else (case max_key_int (map fst forwarder_data) of
              Inl e \<Rightarrow> Inl e
            | Inr last_tg_message_id \<Rightarrow>
                (case dict_get forwarder_data last_tg_message_id of
                   None \<Rightarrow> Inl KeyError
                 | Some discord_message_id \<Rightarrow>
                     (case key_int last_tg_message_id of
                        Inl e \<Rightarrow> Inl e
                      | Inr i \<Rightarrow> last_messages_loop m
                          (last_messages @
                            [\<lparr>forwarder_name = name, telegram_id = i,
                              discord_id = discord_message_id\<rparr>])))))"

definition get_last_messages_for_all_forwarders ::
    "store \<Rightarrow> (py_error + last_message list) \<times> store" where
  "get_last_messages_for_all_forwarders s =
     (case load_mapping_data s of
        (Inl e, s1) \<Rightarrow> (Inl e, s1)
      | (Inr mapping_data, s1) \<Rightarrow>
          (if heap s1 ! mapping_data \<noteq> []
           then (last_messages_loop (heap s1 ! mapping_data) [], s1)
           else (Inr [], s1)))"

subsection \<open>Rotation\<close>

text \<open>
  \<open>text_len\<close> is the number of bytes of the text of a document, as \<open>os.stat\<close> reports it;
  \<open>limit\<close> is \<open>config.app.history_size_limit\<close>, in megabytes. Dividing a size below
  \<open>2 ^ 53\<close> by \<open>1024 * 1024\<close> is exact in Python, so the quotient is a real number here.
  \<open>open1_ok\<close> and \<open>open2_ok\<close> tell whether the two \<open>open(name, "w")\<close> succeed.
\<close>

definition st_size :: "(json_doc \<Rightarrow> nat) \<Rightarrow> file_text \<Rightarrow> nat" where
  "st_size text_len t = (case t of Empty_text \<Rightarrow> 0 | Text doc \<Rightarrow> text_len doc)"

definition oversized :: "(json_doc \<Rightarrow> nat) \<Rightarrow> real \<Rightarrow> file_text \<Rightarrow> bool" where
  "oversized text_len limit t = (real (st_size text_len t) / (1024 * 1024) > limit)"

definition rotate_failed :: "store \<Rightarrow> store" where
  "rotate_failed s = s\<lparr>error_log := error_log s @ [Rotate_failed]\<rparr>"

definition truncate_both :: "bool \<Rightarrow> bool \<Rightarrow> store \<Rightarrow> store" where
  "truncate_both open1_ok open2_ok s =
     (if \<not> open1_ok then rotate_failed s
      else (let s1 = s\<lparr>history_file := Some Empty_text\<rparr>
            in if \<not> open2_ok then rotate_failed s1
               else s1\<lparr>missed_file := Some Empty_text\<rparr>))"

definition clean_history_data ::
    "(json_doc \<Rightarrow> nat) \<Rightarrow> real \<Rightarrow> bool \<Rightarrow> bool \<Rightarrow> store \<Rightarrow> store" where
  "clean_history_data text_len limit open1_ok open2_ok s =
     (case history_file s of
        None \<Rightarrow> rotate_failed s
      | Some h \<Rightarrow>
          if oversized text_len limit h then truncate_both open1_ok open2_ok s
          else (case missed_file s of
                  None \<Rightarrow> rotate_failed s
                | Some m \<Rightarrow>
                    if oversized text_len limit m then truncate_both open1_ok open2_ok s
                    else s))"

section \<open>The configuration validator\<close>

subsection \<open>The parsed document\<close>

text \<open>
  What \<open>yaml.safe_load\<close> returns: \<open>None\<close>, booleans, integers, strings, lists and mappings
  with string keys (in the order of the document, every key once). Floating-point numbers
  and dates are left out.
\<close>

datatype pyval = PNone | PBool bool | PInt int | PStr string | PList "pyval list"
  | PDict "(string \<times> pyval) list"

definition and_then :: "py_error + 'a \<Rightarrow> ('a \<Rightarrow> py_error + 'b) \<Rightarrow> py_error + 'b" where
  "and_then r f = (case r of Inl e \<Rightarrow> Inl e | Inr x \<Rightarrow> f x)"

text \<open>\<open>bool(v)\<close>, as \<open>if v\<close>, \<open>and\<close> and \<open>any\<close> take it.\<close>

fun truthy :: "pyval \<Rightarrow> bool" where
  "truthy PNone = False"
| "truthy (PBool b) = b"
| "truthy (PInt i) = (i \<noteq> 0)"
| "truthy (PStr s) = (s \<noteq> [])"
| "truthy (PList xs) = (xs \<noteq> [])"
| "truthy (PDict d) = (d \<noteq> [])"

text \<open>\<open>d[key]\<close> on a dictionary, and \<open>v[key]\<close> on any value, for a string \<open>key\<close>.\<close>

definition item :: "(string \<times> pyval) list \<Rightarrow> string \<Rightarrow> py_error + pyval" where
  "item d k = (case map_of d k of None \<Rightarrow> Inl KeyError | Some v \<Rightarrow> Inr v)"

fun subscript :: "pyval \<Rightarrow> string \<Rightarrow> py_error + pyval" where
  "subscript (PDict d) k = item d k"
| "subscript v k = Inl TypeError"

fun py_len :: "pyval \<Rightarrow> py_error + nat" where
  "py_len (PStr s) = Inr (length s)"
| "py_len (PList xs) = Inr (length xs)"
| "py_len (PDict d) = Inr (length d)"
| "py_len v = Inl TypeError"

text \<open>Iteration: a list gives its elements, a mapping its keys, a string its characters.\<close>

fun py_iter :: "pyval \<Rightarrow> py_error + pyval list" where
  "py_iter (PList xs) = Inr xs"
| "py_iter (PDict d) = Inr (map (\<lambda>(k, v). PStr k) d)"
| "py_iter (PStr s) = Inr (map (\<lambda>c. PStr [c]) s)"
| "py_iter v = Inl TypeError"

text \<open>\<open>isinstance(v, int)\<close>: \<open>bool\<close> is a subclass of \<open>int\<close>.\<close>

fun is_int :: "pyval \<Rightarrow> bool" where
  "is_int (PInt i) = True"
| "is_int (PBool b) = True"
| "is_int v = False"

text \<open>
  A value as a member of a set or a key of a dictionary: lists and mappings cannot be
  hashed, and \<open>True\<close> and \<open>False\<close> are the keys \<open>1\<close> and \<open>0\<close>.
\<close>

fun hash_key :: "pyval \<Rightarrow> py_error + pyval" where
  "hash_key (PList xs) = Inl TypeError"
| "hash_key (PDict d) = Inl TypeError"
| "hash_key (PBool b) = Inr (PInt (if b then 1 else 0))"
| "hash_key v = Inr v"

text \<open>
  The built-ins of Python whose results the model takes as parameters: the \<open>repr\<close> of a
  value, the text of a set (whose order of elements Python does not fix), and
  \<open>str.lower\<close>, which folds every cased letter of Unicode.
\<close>

record py_builtins =
  repr_value :: "pyval \<Rightarrow> string"
  set_text :: "string set \<Rightarrow> string"
  str_lower :: "string \<Rightarrow> string"

definition format_value :: "py_builtins \<Rightarrow> pyval \<Rightarrow> string" where
  "format_value py v = (case v of PStr s \<Rightarrow> s | _ \<Rightarrow> repr_value py v)"

definition format_pair :: "py_builtins \<Rightarrow> pyval \<Rightarrow> pyval \<Rightarrow> string" where
  "format_pair py a b = ''('' @ repr_value py a @ '', '' @ repr_value py b @ '')''"

subsection \<open>The checks\<close>

definition openai_error :: string where
  "openai_error = ''Invalid configuration: `api_key`, `organization`, and `sentiment_analysis_prompt` must be set when `enabled` is True.''"

definition validate_openai_enabled :: "pyval \<Rightarrow> py_error + bool \<times> string" where
  "validate_openai_enabled config =
     and_then (subscript config ''enabled'') (\<lambda>enabled.
       if truthy enabled then
         and_then (subscript config ''api_key'') (\<lambda>api_key.
           if api_key = PStr [] then Inr (False, openai_error)
           else and_then (subscript config ''organization'') (\<lambda>organization.
             if organization = PStr [] then Inr (False, openai_error)
             else and_then (subscript config ''sentiment_analysis_prompt'') (\<lambda>prompt.
               if prompt = PNone then Inr (False, openai_error) else Inr (True, []))))
       else Inr (True, []))"

definition validate_forwarder_types ::
    "py_builtins \<Rightarrow> (string \<times> pyval) list \<Rightarrow> py_error + bool \<times> string" where
  "validate_forwarder_types py forwarder =
     and_then (item forwarder ''tg_channel_id'') (\<lambda>tg_channel_id.
     and_then (item forwarder ''discord_channel_id'') (\<lambda>discord_channel_id.
       if \<not> is_int tg_channel_id then
         Inr (False, ''Invalid configuration: `tg_channel_id` must be an integer: forwarder with `tg_channel_id` ''
                     @ format_value py tg_channel_id)
       else if \<not> is_int discord_channel_id then
         Inr (False, ''Invalid configuration: `discord_channel_id` must be an integer: forwarder with `tg_channel_id` ''
                     @ format_value py tg_channel_id)
       else Inr (True, [])))"

text \<open>
  The variables that the loop of \<open>validate_config\<close> carries from one forwarder to the
  next. The set \<open>forwarder_combinations\<close> is updated in place by
  \<open>validate_forwarder_combinations\<close>, which returns the new set here.
\<close>

record loop_state =
  valid :: bool
  errors :: "string list"
  forwarder_combinations :: "(pyval \<times> pyval) set"
  forwarder_error_string :: string

definition validate_forwarder_combinations ::
    "py_builtins \<Rightarrow> (string \<times> pyval) list \<Rightarrow> (pyval \<times> pyval) set
       \<Rightarrow> py_error + (bool \<times> string) \<times> (pyval \<times> pyval) set" where
  "validate_forwarder_combinations py forwarder combinations =
     and_then (item forwarder ''tg_channel_id'') (\<lambda>tg_channel_id.
     and_then (item forwarder ''discord_channel_id'') (\<lambda>discord_channel_id.
     and_then (hash_key tg_channel_id) (\<lambda>k1.
     and_then (hash_key discord_channel_id) (\<lambda>k2.
       if (k1, k2) \<in> combinations then
         Inr ((False, ''Invalid configuration: duplicate forwarder with combination ''
                      @ format_pair py tg_channel_id discord_channel_id),
              combinations)
       else Inr ((True, []), insert (k1, k2) combinations)))))"

text \<open>
  \<open>any(tag.get("override_mention_everyone", False) for tag in forward_hashtags)\<close>, which
  stops at the first tag whose flag is true.
\<close>

fun any_override :: "pyval list \<Rightarrow> py_error + bool" where
  "any_override [] = Inr False"
| "any_override (PDict tag # tags) =
     (if truthy (case map_of tag ''override_mention_everyone'' of
                   None \<Rightarrow> PBool False | Some v \<Rightarrow> v)
      then Inr True else any_override tags)"
| "any_override (v # tags) = Inl AttributeError"

definition validate_mention_everyone_and_override ::
    "py_builtins \<Rightarrow> (string \<times> pyval) list \<Rightarrow> pyval \<Rightarrow> py_error + bool \<times> string" where
  "validate_mention_everyone_and_override py forwarder forward_hashtags =
     and_then (item forwarder ''tg_channel_id'') (\<lambda>tg_channel_id.
     and_then (item forwarder ''mention_everyone'') (\<lambda>mention_everyone.
       if truthy mention_everyone then
         and_then (py_iter forward_hashtags) (\<lambda>tags.
         and_then (any_override tags) (\<lambda>found.
           if found then
             Inr (False, ''Invalid configuration: `override_mention_everyone` has no effect when `mention_everyone` set to True: forwarder with `tg_channel_id` ''
                         @ format_value py tg_channel_id)
           else Inr (True, [])))
       else Inr (True, [])))"

text \<open>\<open>{tag["name"].lower() for tag in hashtags}\<close>, as the list of the names in order.\<close>

fun tag_names :: "py_builtins \<Rightarrow> pyval list \<Rightarrow> py_error + string list" where
  "tag_names py [] = Inr []"
| "tag_names py (tag # tags) =
     and_then (subscript tag ''name'') (\<lambda>name.
       case name of
         PStr s \<Rightarrow> and_then (tag_names py tags) (\<lambda>names. Inr (str_lower py s # names))
       | _ \<Rightarrow> Inl AttributeError)"

definition hashtag_names :: "py_builtins \<Rightarrow> pyval \<Rightarrow> py_error + string set" where
  "hashtag_names py hashtags =
     and_then (py_iter hashtags) (\<lambda>tags.
     and_then (tag_names py tags) (\<lambda>names. Inr (set names)))"

definition validate_hashtags_overlap ::
    "py_builtins \<Rightarrow> (string \<times> pyval) list \<Rightarrow> pyval \<Rightarrow> pyval \<Rightarrow> py_error + bool \<times> string" where
  "validate_hashtags_overlap py forwarder forward_hashtags excluded_hashtags =
     and_then (item forwarder ''tg_channel_id'') (\<lambda>tg_channel_id.
     and_then (hashtag_names py forward_hashtags) (\<lambda>forward_hashtags_names.
     and_then (hashtag_names py excluded_hashtags) (\<lambda>excluded_hashtags_names.
       let common_hashtags = forward_hashtags_names \<inter> excluded_hashtags_names
       in if common_hashtags \<noteq> {} then
            Inr (False, ''Invalid configuration: overlapping hashtags '' @ set_text py common_hashtags
                        @ '' found in forward_hashtags and excluded_hashtags for forwarder with `tg_channel_id` ''
                        @ format_value py tg_channel_id)
          else Inr (True, []))))"

definition get_excluded_hashtags :: "(string \<times> pyval) list \<Rightarrow> pyval" where
  "get_excluded_hashtags forwarder =
     (case map_of forwarder ''excluded_hashtags'' of Some v \<Rightarrow> v | None \<Rightarrow> PList [])"

definition get_forward_hashtags :: "(string \<times> pyval) list \<Rightarrow> pyval" where
  "get_forward_hashtags forwarder =
     (case map_of forwarder ''forward_hashtags'' of Some v \<Rightarrow> v | None \<Rightarrow> PList [])"

subsection \<open>Hashtags shared by forwarders of one Telegram channel\<close>

text \<open>
  \<open>{tag["name"].lower() for tag in forwarder.get("forward_hashtags", [])}
  if forwarder.get("forward_hashtags") else set()\<close>
\<close>

definition forward_hashtag_set :: "py_builtins \<Rightarrow> pyval \<Rightarrow> py_error + string set" where
  "forward_hashtag_set py forwarder =
     (case forwarder of
        PDict d \<Rightarrow>
          (case map_of d ''forward_hashtags'' of
             None \<Rightarrow> Inr {}
           | Some v \<Rightarrow> if truthy v then hashtag_names py v else Inr {})
      | _ \<Rightarrow> Inl AttributeError)"

text \<open>The inner loop: the first set already stored for the channel that meets the new one.\<close>

fun first_shared :: "string set list \<Rightarrow> string set \<Rightarrow> string set option" where
  "first_shared [] forward_hashtags = None"
| "first_shared (existing_hashtags # rest) forward_hashtags =
     (let shared_hashtags = existing_hashtags \<inter> forward_hashtags
      in if shared_hashtags \<noteq> {} then Some shared_hashtags
         else first_shared rest forward_hashtags)"

fun shared_hashtags_loop ::
    "py_builtins \<Rightarrow> pyval list \<Rightarrow> (pyval \<times> string set list) list \<Rightarrow> py_error + bool \<times> string" where
  "shared_hashtags_loop py [] tg_channel_hashtags = Inr (True, [])"
| "shared_hashtags_loop py (forwarder # rest) tg_channel_hashtags =
     and_then (subscript forwarder ''tg_channel_id'') (\<lambda>tg_channel_id.
     and_then (forward_hashtag_set py forwarder) (\<lambda>forward_hashtags.
       if forward_hashtags \<noteq> {} then
         and_then (hash_key tg_channel_id) (\<lambda>k.
           case dict_get tg_channel_hashtags k of
             None \<Rightarrow> shared_hashtags_loop py rest (dict_set tg_channel_hashtags k [forward_hashtags])
           | Some existing \<Rightarrow>
               (case first_shared existing forward_hashtags of
                  Some shared_hashtags \<Rightarrow>
                    Inr (False, ''Shared hashtags '' @ set_text py shared_hashtags
                                @ '' found for forwarders with tg_channel_id ''
                                @ format_value py tg_channel_id
                                @ ''. The same message will be forwarded multiple times.'')
                | None \<Rightarrow>
                    shared_hashtags_loop py rest
                      (dict_set tg_channel_hashtags k (existing @ [forward_hashtags]))))
       else shared_hashtags_loop py rest tg_channel_hashtags))"

definition validate_shared_hashtags :: "py_builtins \<Rightarrow> pyval \<Rightarrow> py_error + bool \<times> string" where
  "validate_shared_hashtags py forwarders =
     and_then (py_iter forwarders) (\<lambda>fs. shared_hashtags_loop py fs [])"

subsection \<open>\<open>validate_config\<close>\<close>

text \<open>
  \<open>valid, error = check(...)\<close> followed by
  \<open>if not valid: errors.append(f"{forwarder_error_string} {error}")\<close>.
\<close>

definition report :: "bool \<times> string \<Rightarrow> loop_state \<Rightarrow> loop_state" where
  "report r st =
     (case r of (v, error) \<Rightarrow>
        st\<lparr>valid := v,
           errors := (if \<not> v then errors st @ [forwarder_error_string st @ '' '' @ error]
                      else errors st)\<rparr>)"

text \<open>The body of the loop over the forwarders.\<close>

definition validate_forwarder :: "py_builtins \<Rightarrow> pyval \<Rightarrow> loop_state \<Rightarrow> py_error + loop_state" where
  "validate_forwarder py forwarder st =
     and_then (subscript forwarder ''forwarder_name'') (\<lambda>name.
       case forwarder of
         PDict d \<Rightarrow>
           (let st1 = st\<lparr>forwarder_error_string :=
                          forwarder_error_string st @ '' forwarder name: '' @ format_value py name\<rparr>;
                forward_hashtags = get_forward_hashtags d
            in and_then (py_len forward_hashtags) (\<lambda>n.
               and_then (if n \<le> 0
                         then and_then (item d ''forward_everything'')
                                (\<lambda>forward_everything. Inr (forward_everything = PBool False))
                         else Inr False) (\<lambda>unset.
               let st2 = (if unset
                          then st1\<lparr>valid := False,
                                   errors := errors st1 @
                                     [forwarder_error_string st1
                                      @ '' `forward_hashtags` must be set when `forward_everything` is False'']\<rparr>
                          else st1);
                   excluded_hashtags = get_excluded_hashtags d
               in and_then (validate_forwarder_types py d) (\<lambda>r1.
                  let st3 = report r1 st2
                  in and_then (validate_forwarder_combinations py d (forwarder_combinations st3))
                       (\<lambda>(r2, combinations).
                  let st4 = report r2 (st3\<lparr>forwarder_combinations := combinations\<rparr>)
                  in and_then (validate_mention_everyone_and_override py d forward_hashtags) (\<lambda>r3.
                  let st5 = report r3 st4
                  in and_then (validate_hashtags_overlap py d forward_hashtags excluded_hashtags)
                       (\<lambda>r4. Inr (report r4 st5))))))))
       | _ \<Rightarrow> Inl TypeError)"

fun forwarders_loop :: "py_builtins \<Rightarrow> pyval list \<Rightarrow> loop_state \<Rightarrow> py_error + loop_state" where
  "forwarders_loop py [] st = Inr st"
| "forwarders_loop py (forwarder # rest) st =
     and_then (validate_forwarder py forwarder st) (\<lambda>st'. forwarders_loop py rest st')"

definition validate_config :: "py_builtins \<Rightarrow> pyval \<Rightarrow> py_error + bool \<times> string list" where
  "validate_config py config =
     and_then (subscript config ''telegram_forwarders'') (\<lambda>forwarders.
     let st = \<lparr>valid = True, errors = [], forwarder_combinations = {},
               forwarder_error_string = []\<rparr>
     in and_then (subscript config ''openai'') (\<lambda>openai.
        and_then (validate_openai_enabled openai) (\<lambda>(v, error).
        let st0 = st\<lparr>valid := v,
                     errors := (if \<not> v then errors st @ [error] else errors st),
                     forwarder_error_string := ''Invalid forwarder configuration:''\<rparr>
        in and_then (py_iter forwarders) (\<lambda>fs.
           and_then (forwarders_loop py fs st0) (\<lambda>st1.
           and_then (validate_shared_hashtags py forwarders) (\<lambda>(v1, error1).
           let st2 = st1\<lparr>valid := v1,
                         errors := (if \<not> v1 then errors st1 @ [error1] else errors st1)\<rparr>;
               st3 = st2\<lparr>valid := (errors st2 = [])\<rparr>
           in Inr (valid st3, errors st3)))))))"

subsection \<open>The checks of \<open>load\<close> before the sections are read\<close>

text \<open>
  \<open>load\<close> leaves the process with \<open>sys.exit(1)\<close> when a required key is absent or when
  \<open>validate_config\<close> reports errors; an exception raised by \<open>validate_config\<close> is not caught.
  The document is a mapping.
\<close>

definition required_keys :: "string list" where
  "required_keys = [''application'', ''logger'', ''telegram'', ''discord'', ''telegram_forwarders'']"

datatype load_outcome = SystemExit | Raised py_error | Validated

definition load_check :: "py_builtins \<Rightarrow> (string \<times> pyval) list \<Rightarrow> load_outcome" where
  "load_check py config_data =
     (if \<exists>key \<in> set required_keys. \<not> dict_has config_data key then SystemExit
      else (case validate_config py (PDict config_data) of
              Inl e \<Rightarrow> Raised e
            | Inr (v, errs) \<Rightarrow> if \<not> v then SystemExit else Validated))"

section \<open>Notions used to state the properties\<close>

subsection \<open>History store\<close>

text \<open>The dictionary that the cache refers to, if it has been loaded.\<close>

definition cached_mapping :: "store \<Rightarrow> mapping_data option" where
  "cached_mapping s = (case cache s of None \<Rightarrow> None | Some a \<Rightarrow> Some (heap s ! a))"

text \<open>
  A key is numeric when \<open>int\<close> accepts it. Every key that the store itself writes is: an
  \<open>int\<close>, or the decimal text of one read back from the file.
\<close>

definition numeric_key :: "msg_key \<Rightarrow> bool" where
  "numeric_key k = (case key_int k of Inl e \<Rightarrow> False | Inr i \<Rightarrow> True)"

definition numeric_keys :: "mapping_data \<Rightarrow> bool" where
  "numeric_keys m = (\<forall>(name, fd) \<in> set m. \<forall>k \<in> set (map fst fd). numeric_key k)"

text \<open>
  The entry \<open>e\<close> is one with the numerically largest source id of \<open>fd\<close>: its id is the number
  of a key of \<open>fd\<close>, its destination is what \<open>fd\<close> holds under that key, and no key of \<open>fd\<close>
  has a greater number.
\<close>

definition numerically_largest :: "forwarder_data \<Rightarrow> last_message \<Rightarrow> bool" where
  "numerically_largest fd e =
     ((\<exists>k \<in> set (map fst fd).
         key_int k = Inr (telegram_id e) \<and> dict_get fd k = Some (discord_id e)) \<and>
      (\<forall>k \<in> set (map fst fd).
         case key_int k of Inl err \<Rightarrow> True | Inr i \<Rightarrow> i \<le> telegram_id e))"

definition last_entry_of :: "last_message \<Rightarrow> string \<times> forwarder_data \<Rightarrow> bool" where
  "last_entry_of e entry =
     (case entry of (name, fd) \<Rightarrow> forwarder_name e = name \<and> numerically_largest fd e)"

definition non_empty_forwarders :: "mapping_data \<Rightarrow> mapping_data" where
  "non_empty_forwarders m = filter (\<lambda>(name, fd). fd \<noteq> []) m"

text \<open>The store after recording the source ids 5, 42 and 7 for the forwarder \<open>f1\<close>.\<close>

definition recorded_5_42_7 :: store where
  "recorded_5_42_7 =
     snd (save_mapping_data Io_ok
       (snd (save_mapping_data Io_ok
         (snd (save_mapping_data Io_ok fresh_store ''f1'' 5 50)) ''f1'' 42 420)) ''f1'' 7 70)"

subsection \<open>Example documents\<close>

text \<open>
  The built-ins for the examples, whose names are ASCII and whose sets have one element:
  lower case for the letters A to Z, the decimal text of an integer, and the text of a
  one-element set of plain names, as in \<open>{'news'}\<close>. Other values and sets do not occur
  in the examples.
\<close>

definition ascii_lower :: "string \<Rightarrow> string" where
  "ascii_lower s =
     map (\<lambda>c. let n = (of_char c :: nat) in if 65 \<le> n \<and> n \<le> 90 then char_of (n + 32) else c) s"

definition example_builtins :: py_builtins where
  "example_builtins =
     \<lparr>repr_value = (\<lambda>v. case v of PInt i \<Rightarrow> show_int i | _ \<Rightarrow> ''?''),
      set_text = (\<lambda>names. if card names = 1
                          then ''{'' @ [CHR 0x27] @ the_elem names @ [CHR 0x27] @ ''}''
                          else ''{?}''),
      str_lower = ascii_lower\<rparr>"

definition example_forwarder ::
    "string \<Rightarrow> int \<Rightarrow> int \<Rightarrow> bool \<Rightarrow> string list \<Rightarrow> (string \<times> pyval) list" where
  "example_forwarder name tg dc everything tags =
     [(''forwarder_name'', PStr name),
      (''tg_channel_id'', PInt tg),
      (''discord_channel_id'', PInt dc),
      (''forward_everything'', PBool everything),
      (''forward_hashtags'', PList (map (\<lambda>n. PDict [(''name'', PStr n)]) tags)),
      (''excluded_hashtags'', PList []),
      (''mention_everyone'', PBool False)]"

definition example_document :: "pyval list \<Rightarrow> (string \<times> pyval) list" where
  "example_document forwarders =
     [(''application'', PDict []), (''logger'', PDict []), (''telegram'', PDict []),
      (''discord'', PDict []), (''openai'', PDict [(''enabled'', PBool False)]),
      (''telegram_forwarders'', PList forwarders)]"

definition without :: "string \<Rightarrow> (string \<times> pyval) list \<Rightarrow> (string \<times> pyval) list" where
  "without k d = filter (\<lambda>(k', v). k' \<noteq> k) d"

subsection \<open>Forwarders as the specification describes them\<close>

text \<open>
  The fields of a forwarder entry, read without raising: an absent field reads as \<open>None\<close>,
  an absent list of hashtags as the empty list, a tag without a name as the empty name.
\<close>

definition field :: "pyval \<Rightarrow> string \<Rightarrow> pyval" where
  "field f k =
     (case f of
        PDict d \<Rightarrow> (case map_of d k of Some v \<Rightarrow> v | None \<Rightarrow> PNone)
      | _ \<Rightarrow> PNone)"

definition hashtags :: "pyval \<Rightarrow> string \<Rightarrow> pyval list" where
  "hashtags f k = (case field f k of PList ts \<Rightarrow> ts | _ \<Rightarrow> [])"



















subsection \<open>Auxiliary notions for the loop over shared hashtags\<close>




subsection \<open>Example lists of forwarders\<close>




section \<open>Properties of the history store\<close>

subsection \<open>Persisting and reloading\<close>

text \<open>
  C1. Persisting the history and reloading it after a restart should give the same mapping,
  and \<open>get_discord_message_id\<close> should still find every recorded id. The code stores the
  source id as an \<open>int\<close> key and reads it back from the file as a \<open>str\<close> key: after
  \<open>save_mapping_data("f1", 100, 200)\<close> and a restart, the reloaded mapping has the key
  \<open>"100"\<close> instead of \<open>100\<close>, and the lookup of \<open>100\<close> finds nothing.
\<close>

theorem restart_loses_recorded_lookup:
  "let s = snd (save_mapping_data Io_ok fresh_store ''f1'' 100 200);
       s' = snd (load_mapping_data (restart s))
   in cached_mapping s = Some [(''f1'', [(IntKey 100, HInt 200)])] \<and>
      history_file s = Some (Text [(''f1'', [(''100'', JInt 200)])]) \<and>
      fst (get_discord_message_id s ''f1'' 100) = Inr (Some (HInt 200)) \<and>
      cached_mapping s' = Some [(''f1'', [(StrKey ''100'', HInt 200)])] \<and>
      fst (get_discord_message_id (restart s) ''f1'' 100) = Inr None"
  by code_simp

text \<open>
  More generally: whatever document the history file holds, when the first lookup of a
  process can load it, it finds nothing, for any forwarder and any source id, because no
  key of a loaded dictionary is an \<open>int\<close>.
\<close>


lemma dict_set_mem:
  "(a, b) \<in> set (dict_set d k v) \<Longrightarrow> (a = k \<and> b = v) \<or> (a, b) \<in> set d"
  by (induction d) (auto split: if_splits)

lemma foldl_dict_set_mem:
  "(a, b) \<in> set (foldl (\<lambda>d (k, v). dict_set d k v) acc ps)
   \<Longrightarrow> (a, b) \<in> set acc \<or> (a, b) \<in> set ps"
proof (induction ps arbitrary: acc)
  case Nil
  then show ?case by simp
next
  case (Cons p ps)
  obtain k v where p: "p = (k, v)" by (cases p)
  from Cons.prems p
  have "(a, b) \<in> set (foldl (\<lambda>d (k, v). dict_set d k v) (dict_set acc k v) ps)" by simp
  from Cons.IH [OF this] have "(a, b) \<in> set (dict_set acc k v) \<or> (a, b) \<in> set ps" .
  then show ?case
  proof
    assume "(a, b) \<in> set (dict_set acc k v)"
    from dict_set_mem [OF this] p show ?thesis by auto
  next
    assume "(a, b) \<in> set ps"
    then show ?thesis by simp
  qed
qed

lemma dict_get_absent: "\<forall>b. (k, b) \<notin> set d \<Longrightarrow> dict_get d k = None"
  by (induction d) (auto simp: dict_get_def)

lemma dict_get_mem: "dict_get d k = Some v \<Longrightarrow> (k, v) \<in> set d"
  by (simp add: dict_get_def map_of_SomeD)

lemma loads_pairs_keys:
  "loads_pairs jd = Inr ps \<Longrightarrow> (IntKey i, b) \<notin> set ps"
proof (induction jd arbitrary: ps)
  case Nil
  then show ?case by simp
next
  case (Cons p jd)
  obtain k j where p: "p = (k, j)" by (cases p)
  from Cons.prems p obtain v ps' where
    "loads_pairs jd = Inr ps'" and ps: "ps = (StrKey k, v) # ps'"
    by (auto split: sum.splits)
  with Cons.IH show ?case by auto
qed

lemma loads_forwarder_no_int_key:
  assumes "loads_forwarder jd = Inr fd"
  shows "dict_get fd (IntKey i) = None"
proof (rule dict_get_absent, rule allI)
  fix b
  from assms obtain ps where ps: "loads_pairs jd = Inr ps" and fd: "fd = dict_of_pairs ps"
    by (auto simp: loads_forwarder_def split: sum.splits)
  show "(IntKey i, b) \<notin> set fd"
  proof
    assume "(IntKey i, b) \<in> set fd"
    then have "(IntKey i, b) \<in> set (foldl (\<lambda>d (k, v). dict_set d k v) [] ps)"
      by (simp add: fd dict_of_pairs_def)
    from foldl_dict_set_mem [OF this] have "(IntKey i, b) \<in> set ps" by simp
    with loads_pairs_keys [OF ps] show False by blast
  qed
qed

lemma loads_forwarders_values:
  "loads_forwarders doc = Inr ps \<Longrightarrow> (name, fd) \<in> set ps
   \<Longrightarrow> \<exists>jd. loads_forwarder jd = Inr fd"
proof (induction doc arbitrary: ps)
  case Nil
  then show ?case by simp
next
  case (Cons p doc)
  obtain n jd where p: "p = (n, jd)" by (cases p)
  from Cons.prems(1) p obtain fd' ps' where
    a: "loads_forwarder jd = Inr fd'" and b: "loads_forwarders doc = Inr ps'"
    and ps: "ps = (n, fd') # ps'"
    by (auto split: sum.splits)
  from Cons.prems(2) ps have "(name, fd) = (n, fd') \<or> (name, fd) \<in> set ps'" by simp
  then show ?case
  proof
    assume "(name, fd) = (n, fd')"
    with a show ?thesis by blast
  next
    assume "(name, fd) \<in> set ps'"
    from Cons.IH [OF b this] show ?thesis .
  qed
qed

lemma json_loads_forwarders:
  assumes "json_loads (Text doc) = Inr m" and "dict_get m name = Some fd"
  shows "\<exists>jd. loads_forwarder jd = Inr fd"
proof -
  from assms(1) obtain ps where ps: "loads_forwarders doc = Inr ps" and m: "m = dict_of_pairs ps"
    by (auto simp: json_loads_def split: sum.splits)
  from assms(2) have "(name, fd) \<in> set m" by (rule dict_get_mem)
  then have "(name, fd) \<in> set (foldl (\<lambda>d (k, v). dict_set d k v) [] ps)"
    by (simp add: m dict_of_pairs_def)
  from foldl_dict_set_mem [OF this] have "(name, fd) \<in> set ps" by simp
  from loads_forwarders_values [OF ps this] show ?thesis .
qed

lemma reloaded_lookup_finds_nothing:
  assumes "cache s = None" and "history_file s = Some (Text doc)"
    and "json_loads (Text doc) = Inr m"
  shows "fst (get_discord_message_id s name i) = Inr None"
proof -
  note m = assms(3)
  let ?s1 = "s\<lparr>heap := heap s @ [m], cache := Some (length (heap s))\<rparr>"
  have load: "load_mapping_data s = (Inr (length (heap s)), ?s1)"
    using assms m by (simp add: load_mapping_data_def alloc_def)
  have h: "heap ?s1 ! length (heap s) = m" by simp
  show ?thesis
  proof (cases "dict_get m name")
    case None
    with load h show ?thesis by (simp add: get_discord_message_id_def)
  next
    case (Some fd)
    from json_loads_forwarders [OF m Some] obtain jd where "loads_forwarder jd = Inr fd" ..
    from loads_forwarder_no_int_key [OF this] load h Some show ?thesis
      by (simp add: get_discord_message_id_def)
  qed
qed

subsection \<open>A write that fails\<close>

text \<open>
  C2. \<open>save_mapping_data\<close> should update the cache only after the file has been written,
  and leave file and cache as they were when the write fails. The code changes the cached
  dictionary itself before it opens the file: after a first record of \<open>("f1", 100, 200)\<close>,
  a second record of \<open>("f1", 100, 999)\<close> whose \<open>open\<close> fails logs the error and leaves the
  file as it was, but the cache, and so every later lookup, answers 999.
\<close>

theorem failed_write_still_updates_cache:
  "let s = snd (save_mapping_data Io_ok fresh_store ''f1'' 100 200);
       s' = snd (save_mapping_data Open_fails s ''f1'' 100 999)
   in fst (get_discord_message_id s ''f1'' 100) = Inr (Some (HInt 200)) \<and>
      error_log s' = [Save_mapping_failed] \<and>
      history_file s' = history_file s \<and>
      history_file s' = Some (Text [(''f1'', [(''100'', JInt 200)])]) \<and>
      cached_mapping s' = Some [(''f1'', [(IntKey 100, HInt 999)])] \<and>
      fst (get_discord_message_id s' ''f1'' 100) = Inr (Some (HInt 999))"
  by code_simp

subsection \<open>Recording a missed message\<close>

text \<open>
  C3. \<open>save_missed_message\<close> should leave the primary mapping as it is. The code takes the
  dictionary of the primary cache and stores the pair \<open>(discord_channel_id, exception)\<close> in
  it: an entry recorded before is overwritten, a new one is added, and
  \<open>get_discord_message_id\<close> returns the pair.
\<close>

theorem missed_message_alters_primary_mapping:
  "let s = snd (save_mapping_data Io_ok fresh_store ''f1'' 100 200);
       s' = snd (save_missed_message Io_ok s ''f1'' 100 555 (HStr ''timeout''));
       s'' = snd (save_missed_message Io_ok s ''f2'' 7 555 (HStr ''timeout''))
   in fst (get_discord_message_id s ''f1'' 100) = Inr (Some (HInt 200)) \<and>
      fst (get_discord_message_id s' ''f1'' 100) =
        Inr (Some (HTuple [HInt 555, HStr ''timeout''])) \<and>
      fst (get_discord_message_id s ''f2'' 7) = Inr None \<and>
      fst (get_discord_message_id s'' ''f2'' 7) =
        Inr (Some (HTuple [HInt 555, HStr ''timeout'']))"
  by code_simp

subsection \<open>Rotation\<close>

text \<open>
  C4. After \<open>clean_history_data\<close> has emptied the two files, a lookup of an id recorded
  before should find nothing. The code empties the files and leaves the cache: with a
  history of 2000000 bytes and a limit of 1 megabyte both files are emptied, the lookup
  of the recorded id still answers 200, the next record writes every old entry back to
  the file, and after a restart the empty file makes the lookup raise.
\<close>

theorem rotation_keeps_cached_entries:
  "let s0 = snd (save_mapping_data Io_ok fresh_store ''f1'' 100 200);
       s1 = snd (save_missed_message Io_ok s0 ''f2'' 7 555 (HStr ''timeout''));
       s = clean_history_data (\<lambda>doc. 2000000) 1 True True s1
   in history_file s1 = Some (Text [(''f1'', [(''100'', JInt 200)])]) \<and>
      oversized (\<lambda>doc. 2000000) 1 (Text [(''f1'', [(''100'', JInt 200)])]) \<and>
      history_file s = Some Empty_text \<and> missed_file s = Some Empty_text \<and>
      fst (get_discord_message_id s ''f1'' 100) = Inr (Some (HInt 200)) \<and>
      history_file (snd (save_mapping_data Io_ok s ''f1'' 101 201)) =
        Some (Text [(''f1'', [(''100'', JInt 200), (''101'', JInt 201)]),
                    (''f2'', [(''7'', JArr [JInt 555, JStr ''timeout''])])]) \<and>
      fst (get_discord_message_id (restart s) ''f1'' 100) = Inl JSONDecodeError"
proof -
  let ?s0 = "snd (save_mapping_data Io_ok fresh_store ''f1'' 100 200)"
  let ?s1 = "snd (save_missed_message Io_ok ?s0 ''f2'' 7 555 (HStr ''timeout''))"
  let ?cached = "[(''f1'', [(IntKey 100, HInt 200)]),
                  (''f2'', [(IntKey 7, HTuple [HInt 555, HStr ''timeout''])])]"
  have s1: "?s1 = \<lparr>heap = [?cached], cache = Some 0,
                    history_file = Some (Text [(''f1'', [(''100'', JInt 200)])]),
                    missed_file = Some (Text [(''f1'', [(''100'', JInt 200)]),
                                             (''f2'', [(''7'', JArr [JInt 555, JStr ''timeout''])])]),
                    error_log = []\<rparr>"
    by code_simp
  have big: "oversized (\<lambda>doc. 2000000) 1 (Text [(''f1'', [(''100'', JInt 200)])])"
    by (simp add: oversized_def st_size_def)
  let ?s = "?s1\<lparr>history_file := Some Empty_text, missed_file := Some Empty_text\<rparr>"
  have s: "clean_history_data (\<lambda>doc. 2000000) 1 True True ?s1 = ?s"
    using big by (simp add: s1 clean_history_data_def truncate_both_def)
  have a: "fst (get_discord_message_id ?s ''f1'' 100) = Inr (Some (HInt 200))"
    unfolding s1 by code_simp
  have b: "history_file (snd (save_mapping_data Io_ok ?s ''f1'' 101 201)) =
        Some (Text [(''f1'', [(''100'', JInt 200), (''101'', JInt 201)]),
                    (''f2'', [(''7'', JArr [JInt 555, JStr ''timeout''])])])"
    unfolding s1 by code_simp
  have c: "fst (get_discord_message_id (restart ?s) ''f1'' 100) = Inl JSONDecodeError"
    unfolding s1 by code_simp
  have d: "history_file ?s = Some Empty_text \<and> missed_file ?s = Some Empty_text" by simp
  have e: "history_file ?s1 = Some (Text [(''f1'', [(''100'', JInt 200)])])"
    by (simp add: s1)
  show ?thesis
    unfolding Let_def s using e big d a b c by blast
qed

subsection \<open>The decimal text of a key is read back as the same number\<close>

text \<open>
  \<open>int\<close> accepts the key text that \<open>json.dumps\<close> writes for an \<open>int\<close> key, and gives the
  same number: the keys that the store writes and reads back are numeric.
\<close>


lemma digit_val_digit_char: "d < 10 \<Longrightarrow> digit_val (digit_char d) = Some d"
proof -
  assume "d < 10"
  then have "d \<in> {0, 1, 2, 3, 4, 5, 6, 7, 8, 9}" by auto
  then show ?thesis
    by (auto simp: digit_val_def digit_char_def)
qed

lemma digit_char_plain:
  "d < 10 \<Longrightarrow> digit_char d \<noteq> CHR ''_'' \<and> digit_char d \<noteq> CHR ''-'' \<and>
      digit_char d \<noteq> CHR ''+'' \<and> \<not> is_space (digit_char d)"
proof -
  assume "d < 10"
  then have "d \<in> {0, 1, 2, 3, 4, 5, 6, 7, 8, 9}" by auto
  then show ?thesis
    by (auto simp: digit_char_def is_space_def)
qed


lemma show_nat_small: "n < 10 \<Longrightarrow> show_nat n = [digit_char n]"
  by (subst show_nat.simps) simp

lemma show_nat_large: "\<not> n < 10 \<Longrightarrow> show_nat n = show_nat (n div 10) @ [digit_char (n mod 10)]"
  by (subst show_nat.simps) (simp add: digit_char_def)

lemma show_nat_digits: "\<forall>c \<in> set (show_nat n). \<exists>d < 10. c = digit_char d"
proof (induction n rule: show_nat.induct)
  case (1 n)
  show ?case
  proof (cases "n < 10")
    case True
    then show ?thesis by (auto simp only: show_nat_small list.set)
  next
    case False
    have "n mod 10 < 10" by simp
    with 1 [OF False] show ?thesis
      by (auto simp only: show_nat_large [OF False] set_append list.set)
  qed
qed

lemma show_nat_not_empty: "show_nat n \<noteq> []"
  by (cases "n < 10") (simp_all only: show_nat_small show_nat_large, simp_all)

lemma parse_digits_digit:
  "d < 10 \<Longrightarrow> parse_digits acc b (digit_char d # rest) = parse_digits (10 * acc + d) True rest"
  using digit_char_plain [of d] by (simp add: digit_val_digit_char)

lemma parse_digits_show_nat:
  "parse_digits acc b (show_nat n @ rest)
     = parse_digits (acc * 10 ^ length (show_nat n) + n) True rest"
proof (induction n arbitrary: acc b rest rule: show_nat.induct)
  case (1 n)
  show ?case
  proof (cases "n < 10")
    case True
    then show ?thesis
      by (simp only: show_nat_small [OF True] append_Cons append_Nil parse_digits_digit)
         (simp add: mult.commute)
  next
    case False
    let ?k = "length (show_nat (n div 10))"
    have m: "n mod 10 < 10" by simp
    have "parse_digits acc b (show_nat n @ rest)
            = parse_digits acc b (show_nat (n div 10) @ (digit_char (n mod 10) # rest))"
      by (simp only: show_nat_large [OF False] append_assoc append_Cons append_Nil)
    also have "\<dots> = parse_digits (acc * 10 ^ ?k + n div 10) True (digit_char (n mod 10) # rest)"
      by (rule 1 [OF False])
    also have "\<dots> = parse_digits (10 * (acc * 10 ^ ?k + n div 10) + n mod 10) True rest"
      by (rule parse_digits_digit [OF m])
    also have "10 * (acc * 10 ^ ?k + n div 10) + n mod 10 = acc * 10 ^ Suc ?k + (10 * (n div 10) + n mod 10)"
      by (simp add: algebra_simps)
    also have "10 * (n div 10) + n mod 10 = n" by simp
    also have "Suc ?k = length (show_nat n)"
      by (simp only: show_nat_large [OF False]) simp
    finally show ?thesis .
  qed
qed

lemma parse_show_nat: "parse_digits 0 False (show_nat n) = Some n"
  using parse_digits_show_nat [of 0 False n "[]"] by simp

lemma dropWhile_none: "\<forall>c \<in> set xs. \<not> P c \<Longrightarrow> dropWhile P xs = xs"
  by (cases xs) simp_all

lemma strip_no_space: "\<forall>c \<in> set s. \<not> is_space c \<Longrightarrow> strip s = s"
proof -
  assume a: "\<forall>c \<in> set s. \<not> is_space c"
  then have b: "\<forall>c \<in> set (rev s). \<not> is_space c" by simp
  show ?thesis
    by (simp only: strip_def dropWhile_none [OF a] dropWhile_none [OF b] rev_rev_ident)
qed

lemma show_nat_no_space: "\<forall>c \<in> set (show_nat n). \<not> is_space c"
proof
  fix c
  assume "c \<in> set (show_nat n)"
  with show_nat_digits [of n] obtain d where "d < 10" "c = digit_char d" by blast
  with digit_char_plain [of d] show "\<not> is_space c" by blast
qed

lemma minus_no_space: "\<not> is_space CHR ''-''"
  by (simp add: is_space_def)

lemma show_nat_no_underscore: "filter (\<lambda>c. c \<noteq> CHR ''_'') (show_nat n) = show_nat n"
proof -
  have "\<forall>c \<in> set (show_nat n). c \<noteq> CHR ''_''"
  proof
    fix c
    assume "c \<in> set (show_nat n)"
    with show_nat_digits [of n] obtain d where "d < 10" "c = digit_char d" by blast
    with digit_char_plain [of d] show "c \<noteq> CHR ''_''" by simp
  qed
  then show ?thesis by (simp only: filter_True)
qed

lemma int_of_string_plain:
  assumes "strip s = c # cs" and "c \<noteq> CHR ''-''" and "c \<noteq> CHR ''+''"
    and "parse_digits 0 False (c # cs) = Some n"
    and "length (filter (\<lambda>c. c \<noteq> CHR ''_'') (c # cs)) \<le> int_max_str_digits"
  shows "int_of_string s = Inr (int n)"
  using assms by (simp add: int_of_string_def Let_def)

lemma int_of_string_minus:
  assumes "strip s = CHR ''-'' # ds"
    and "parse_digits 0 False ds = Some n"
    and "length (filter (\<lambda>c. c \<noteq> CHR ''_'') ds) \<le> int_max_str_digits"
  shows "int_of_string s = Inr (- int n)"
  using assms by (simp add: int_of_string_def Let_def)

lemma int_of_string_show_int:
  assumes "decimal_digits i \<le> int_max_str_digits"
  shows "int_of_string (show_int i) = Inr i"
proof (cases "i < 0")
  case True
  let ?n = "nat (- i)"
  have n: "nat \<bar>i\<bar> = ?n" using True by simp
  have len: "length (filter (\<lambda>c. c \<noteq> CHR ''_'') (show_nat ?n)) \<le> int_max_str_digits"
    using assms by (simp only: decimal_digits_def n show_nat_no_underscore)
  have sp: "\<forall>c \<in> set (CHR ''-'' # show_nat ?n). \<not> is_space c"
    using show_nat_no_space [of ?n] minus_no_space by (simp only: list.set ball_simps) blast
  have st: "strip (show_int i) = CHR ''-'' # show_nat ?n"
    using True strip_no_space [OF sp] by (simp only: show_int_def if_True)
  from int_of_string_minus [OF st parse_show_nat len] True show ?thesis by simp
next
  case False
  let ?n = "nat i"
  have n: "nat \<bar>i\<bar> = ?n" using False by simp
  have len: "length (filter (\<lambda>c. c \<noteq> CHR ''_'') (show_nat ?n)) \<le> int_max_str_digits"
    using assms by (simp only: decimal_digits_def n show_nat_no_underscore)
  have sp: "\<forall>c \<in> set (show_nat ?n). \<not> is_space c"
    by (rule show_nat_no_space)
  have st: "strip (show_int i) = show_nat ?n"
    using False strip_no_space [OF sp] by (simp only: show_int_def if_False)
  obtain c cs where cs: "show_nat ?n = c # cs"
    using show_nat_not_empty [of ?n] by (cases "show_nat ?n") auto
  then have "c \<in> set (show_nat ?n)" by simp
  with show_nat_digits [of ?n] obtain d where "d < 10" "c = digit_char d" by blast
  with digit_char_plain [of d] have c: "c \<noteq> CHR ''-''" "c \<noteq> CHR ''+''" by simp_all
  from int_of_string_plain [OF st [unfolded cs] c parse_show_nat [of ?n, unfolded cs] len [unfolded cs]]
    False show ?thesis by simp
qed

lemma written_keys_numeric:
  "dumps_key (IntKey i) = Inr t \<Longrightarrow> key_int (StrKey t) = Inr i"
  by (auto simp: key_int_def dumps_key_def int_str_def int_of_string_show_int
      simp del: show_nat.simps split: if_splits)

subsection \<open>The last message of every forwarder\<close>

lemma max_from_spec:
  assumes "key_int best = Inr bv" and "\<forall>k \<in> set ks. numeric_key k"
  shows "\<exists>k v. max_from best bv ks = Inr k \<and> k \<in> insert best (set ks) \<and>
           key_int k = Inr v \<and> bv \<le> v \<and>
           (\<forall>k' \<in> set ks. case key_int k' of Inl err \<Rightarrow> True | Inr i \<Rightarrow> i \<le> v)"
  using assms
proof (induction ks arbitrary: best bv)
  case Nil
  then show ?case by simp
next
  case (Cons k ks)
  from Cons.prems(2) obtain v where kv: "key_int k = Inr v"
    by (auto simp: numeric_key_def split: sum.splits)
  have rest: "\<forall>k \<in> set ks. numeric_key k" using Cons.prems(2) by simp
  show ?case
  proof (cases "v > bv")
    case True
    from Cons.IH [OF kv rest] obtain k' v' where
      "max_from k v ks = Inr k'" "k' \<in> insert k (set ks)" "key_int k' = Inr v'" "v \<le> v'"
      "\<forall>k' \<in> set ks. case key_int k' of Inl err \<Rightarrow> True | Inr i \<Rightarrow> i \<le> v'"
      by blast
    with True kv show ?thesis by auto
  next
    case False
    from Cons.IH [OF Cons.prems(1) rest] obtain k' v' where
      "max_from best bv ks = Inr k'" "k' \<in> insert best (set ks)" "key_int k' = Inr v'" "bv \<le> v'"
      "\<forall>k' \<in> set ks. case key_int k' of Inl err \<Rightarrow> True | Inr i \<Rightarrow> i \<le> v'"
      by blast
    with False kv show ?thesis by auto
  qed
qed

lemma max_key_int_spec:
  assumes "ks \<noteq> []" and "\<forall>k \<in> set ks. numeric_key k"
  shows "\<exists>k v. max_key_int ks = Inr k \<and> k \<in> set ks \<and> key_int k = Inr v \<and>
           (\<forall>k' \<in> set ks. case key_int k' of Inl err \<Rightarrow> True | Inr i \<Rightarrow> i \<le> v)"
proof -
  from assms(1) obtain k0 ks' where ks: "ks = k0 # ks'" by (cases ks) auto
  with assms(2) obtain v0 where k0: "key_int k0 = Inr v0"
    by (auto simp: numeric_key_def split: sum.splits)
  have "\<forall>k \<in> set ks'. numeric_key k" using assms(2) ks by simp
  from max_from_spec [OF k0 this] obtain k v where
    "max_from k0 v0 ks' = Inr k" "k \<in> insert k0 (set ks')" "key_int k = Inr v" "v0 \<le> v"
    "\<forall>k' \<in> set ks'. case key_int k' of Inl err \<Rightarrow> True | Inr i \<Rightarrow> i \<le> v"
    by blast
  with ks k0 show ?thesis by (auto simp: max_key_int_def)
qed

lemma dict_get_key: "k \<in> set (map fst d) \<Longrightarrow> \<exists>v. dict_get d k = Some v"
  by (induction d) (auto simp: dict_get_def)

lemma last_messages_loop_spec:
  assumes "numeric_keys m"
  shows "\<exists>r. last_messages_loop m acc = Inr (acc @ r) \<and>
              list_all2 last_entry_of r (non_empty_forwarders m)"
  using assms
proof (induction m arbitrary: acc)
  case Nil
  then show ?case by (simp add: non_empty_forwarders_def)
next
  case (Cons entry m)
  obtain name fd where entry: "entry = (name, fd)" by (cases entry)
  have rest: "numeric_keys m" using Cons.prems by (simp add: numeric_keys_def)
  show ?case
  proof (cases "fd = []")
    case True
    with Cons.IH [OF rest, of acc] entry show ?thesis
      by (simp add: non_empty_forwarders_def)
  next
    case False
    then have ne: "map fst fd \<noteq> []" by simp
    have num: "\<forall>k \<in> set (map fst fd). numeric_key k"
      using Cons.prems entry by (simp add: numeric_keys_def)
    from max_key_int_spec [OF ne num] obtain k v where
      mk: "max_key_int (map fst fd) = Inr k" and kin: "k \<in> set (map fst fd)"
      and kv: "key_int k = Inr v"
      and top: "\<forall>k' \<in> set (map fst fd). case key_int k' of Inl err \<Rightarrow> True | Inr i \<Rightarrow> i \<le> v"
      by blast
    from dict_get_key [OF kin] obtain d where d: "dict_get fd k = Some d" by blast
    let ?e = "\<lparr>forwarder_name = name, telegram_id = v, discord_id = d\<rparr>"
    from Cons.IH [OF rest, of "acc @ [?e]"] obtain r where
      r: "last_messages_loop m (acc @ [?e]) = Inr ((acc @ [?e]) @ r)"
      and rs: "list_all2 last_entry_of r (non_empty_forwarders m)"
      by blast
    have "\<exists>k \<in> set (map fst fd). key_int k = Inr v \<and> dict_get fd k = Some d"
      using kin kv d by blast
    then have e: "last_entry_of ?e (name, fd)"
      using top by (simp add: last_entry_of_def numerically_largest_def split: sum.splits)
    have "last_messages_loop (entry # m) acc = Inr (acc @ (?e # r))"
      using False entry mk d kv r by simp
    moreover have "list_all2 last_entry_of (?e # r) (non_empty_forwarders (entry # m))"
      using False entry e rs by (simp add: non_empty_forwarders_def)
    ultimately show ?thesis by blast
  qed
qed

text \<open>
  C8. Whenever the mapping can be loaded and its keys are numeric,
  \<open>get_last_messages_for_all_forwarders\<close> returns normally, with one entry for every
  forwarder that has at least one entry, in the order of the mapping, and none for the
  others; the entry of a forwarder carries the numerically largest source id of the
  forwarder (as an integer, whether the key is an \<open>int\<close> or a \<open>str\<close>) and the destination
  stored under it.
\<close>

theorem last_messages_numeric_maximum:
  assumes "load_mapping_data s = (Inr a, s')" and "numeric_keys (heap s' ! a)"
  shows "\<exists>r. get_last_messages_for_all_forwarders s = (Inr r, s') \<and>
              list_all2 last_entry_of r (non_empty_forwarders (heap s' ! a))"
proof (cases "heap s' ! a = []")
  case True
  with assms(1) show ?thesis
    by (simp add: get_last_messages_for_all_forwarders_def non_empty_forwarders_def)
next
  case False
  from last_messages_loop_spec [OF assms(2), of "[]"] obtain r where
    "last_messages_loop (heap s' ! a) [] = Inr r"
    "list_all2 last_entry_of r (non_empty_forwarders (heap s' ! a))"
    by auto
  with False assms(1) show ?thesis
    by (simp add: get_last_messages_for_all_forwarders_def)
qed

text \<open>
  The example of the specification: after recording the source ids 5, 42 and 7 for \<open>f1\<close>
  the entry returned is the one of 42, before a restart (keys 5, 42, 7) and after it
  (keys "5", "42", "7", of which "7" is the lexicographic maximum).
\<close>

theorem last_messages_numeric_maximum_witness:
  "load_mapping_data (restart recorded_5_42_7) =
     (Inr 0, snd (load_mapping_data (restart recorded_5_42_7))) \<and>
   heap (snd (load_mapping_data (restart recorded_5_42_7))) ! 0 =
     [(''f1'', [(StrKey ''5'', HInt 50), (StrKey ''42'', HInt 420), (StrKey ''7'', HInt 70)])] \<and>
   numeric_keys (heap (snd (load_mapping_data (restart recorded_5_42_7))) ! 0) \<and>
   (\<exists>r. get_last_messages_for_all_forwarders (restart recorded_5_42_7) =
           (Inr r, snd (load_mapping_data (restart recorded_5_42_7))) \<and>
         list_all2 last_entry_of r
           (non_empty_forwarders (heap (snd (load_mapping_data (restart recorded_5_42_7))) ! 0))) \<and>
   fst (get_last_messages_for_all_forwarders (restart recorded_5_42_7)) =
     Inr [\<lparr>forwarder_name = ''f1'', telegram_id = 42, discord_id = HInt 420\<rparr>] \<and>
   fst (get_last_messages_for_all_forwarders recorded_5_42_7) =
     Inr [\<lparr>forwarder_name = ''f1'', telegram_id = 42, discord_id = HInt 420\<rparr>]"
proof -
  let ?s = "restart recorded_5_42_7"
  let ?s' = "snd (load_mapping_data ?s)"
  have h1: "load_mapping_data ?s = (Inr 0, ?s')" by code_simp
  have h2: "numeric_keys (heap ?s' ! 0)" by code_simp
  have h3: "heap ?s' ! 0 =
     [(''f1'', [(StrKey ''5'', HInt 50), (StrKey ''42'', HInt 420), (StrKey ''7'', HInt 70)])]"
    by code_simp
  have h4: "fst (get_last_messages_for_all_forwarders ?s) =
     Inr [\<lparr>forwarder_name = ''f1'', telegram_id = 42, discord_id = HInt 420\<rparr>]"
    by code_simp
  have h5: "fst (get_last_messages_for_all_forwarders recorded_5_42_7) =
     Inr [\<lparr>forwarder_name = ''f1'', telegram_id = 42, discord_id = HInt 420\<rparr>]"
    by code_simp
  from last_messages_numeric_maximum [OF h1 h2] h1 h2 h3 h4 h5 show ?thesis by blast
qed

section \<open>Lemmas about the checks of the validator\<close>

subsection \<open>Shared hashtags\<close>














subsection \<open>The checks on a well-formed forwarder\<close>











lemma errors_report: "\<exists>more. errors (report r st) = errors st @ more"
  by (cases r) (simp add: report_def)






section \<open>Properties of the configuration validator\<close>

subsection \<open>The text of the errors\<close>

text \<open>
  C7. Every error of a forwarder should carry the name of that forwarder and of no other.
  The code extends \<open>forwarder_error_string\<close> in every round of the loop and never resets
  it: with a first forwarder \<open>A\<close> that is in order and a second forwarder \<open>B\<close> that has no
  \<open>forward_hashtags\<close> although \<open>forward_everything\<close> is false, the one error returned, which
  is about \<open>B\<close>, names \<open>A\<close> first.
\<close>

theorem error_prefix_accumulates_names:
  "validate_config py
     (PDict (example_document
        [PDict (example_forwarder ''A'' 1 10 True []),
         PDict (example_forwarder ''B'' 2 20 False [])]))
   = Inr (False,
       [''Invalid forwarder configuration: forwarder name: A forwarder name: B `forward_hashtags` must be set when `forward_everything` is False''])"
  by code_simp

subsection \<open>The flag and the list of errors\<close>

text \<open>
  C9. Whenever \<open>validate_config\<close> returns, the flag it returns is true exactly when the
  list of errors it returns is empty, whatever the single checks have assigned to
  \<open>valid\<close> on the way.
\<close>

theorem valid_flag_iff_no_errors:
  "validate_config py config = Inr (v, errs) \<Longrightarrow> v = (errs = [])"
  by (auto simp: validate_config_def and_then_def Let_def split: sum.splits prod.splits)

theorem valid_flag_iff_no_errors_witness:
  "validate_config example_builtins
     (PDict (example_document
        [PDict (example_forwarder ''A'' 1 10 True []),
         PDict (example_forwarder ''A'' 1 10 True [])]))
   = Inr (False, [''Invalid forwarder configuration: forwarder name: A forwarder name: A Invalid configuration: duplicate forwarder with combination (1, 10)''])
   \<and> (False = ([''Invalid forwarder configuration: forwarder name: A forwarder name: A Invalid configuration: duplicate forwarder with combination (1, 10)''] = ([] :: string list)))"
proof -
  have h: "validate_config example_builtins
     (PDict (example_document
        [PDict (example_forwarder ''A'' 1 10 True []),
         PDict (example_forwarder ''A'' 1 10 True [])]))
   = Inr (False, [''Invalid forwarder configuration: forwarder name: A forwarder name: A Invalid configuration: duplicate forwarder with combination (1, 10)''])"
    by code_simp
  from valid_flag_iff_no_errors [OF h] h show ?thesis by simp
qed

subsection \<open>Documents on which the validator raises\<close>

text \<open>
  C10. A document can pass the check of the required top-level keys and still make
  \<open>validate_config\<close> raise \<open>KeyError\<close>, which \<open>load\<close> does not catch: the document without
  the \<open>openai\<close> section does, and so does a document whose forwarder lacks
  \<open>forwarder_name\<close>, \<open>tg_channel_id\<close>, \<open>discord_channel_id\<close>, \<open>forward_everything\<close> (the
  forwarder here has no hashtags) or \<open>mention_everyone\<close>. With the complete forwarder the
  document is accepted.
\<close>

theorem validate_config_raises_key_error:
  "load_check py (example_document [PDict (example_forwarder ''A'' 1 10 True [])]) = Validated \<and>
   load_check py (without ''openai'' (example_document [])) = Raised KeyError \<and>
   validate_config py (PDict (without ''openai'' (example_document []))) = Inl KeyError \<and>
   load_check py (example_document
     [PDict (without ''forwarder_name'' (example_forwarder ''A'' 1 10 True []))]) = Raised KeyError \<and>
   load_check py (example_document
     [PDict (without ''tg_channel_id'' (example_forwarder ''A'' 1 10 True []))]) = Raised KeyError \<and>
   load_check py (example_document
     [PDict (without ''discord_channel_id'' (example_forwarder ''A'' 1 10 True []))]) = Raised KeyError \<and>
   load_check py (example_document
     [PDict (without ''forward_everything'' (example_forwarder ''A'' 1 10 True []))]) = Raised KeyError \<and>
   load_check py (example_document
     [PDict (without ''mention_everyone'' (example_forwarder ''A'' 1 10 True []))]) = Raised KeyError"
  by code_simp

subsection \<open>Hashtags shared within one Telegram channel\<close>


subsection \<open>Documents that are accepted\<close>






end
